theory Spec2Isabelle
  imports Main
begin

section \<open>Go string helpers used by the overrides\<close>

text \<open>
  The package \<^verbatim>\<open>config\<close> uses four functions of Go's \<^verbatim>\<open>strings\<close> package. Go strings are
  byte sequences, here \<open>string\<close> (a \<open>char list\<close>). \<^verbatim>\<open>strings.Split\<close> is only ever called
  with the one-byte separator \<^verbatim>\<open>"_"\<close>, so the separator is a \<open>char\<close>. As in Go, splitting
  the empty string gives one empty word, and \<open>n\<close> separators always give \<open>n + 1\<close> words.
\<close>

fun Split :: "string \<Rightarrow> char \<Rightarrow> string list" where
  "Split [] sep = [[]]"
| "Split (c # cs) sep =
     (if c = sep then [] # Split cs sep
      else (case Split cs sep of [] \<Rightarrow> [[c]] | w # ws \<Rightarrow> (c # w) # ws))"

fun Join :: "string list \<Rightarrow> string \<Rightarrow> string" where
  "Join [] sep = []"
| "Join [w] sep = w"
| "Join (w # ws) sep = w @ sep @ Join ws sep"

definition HasPrefix :: "string \<Rightarrow> string \<Rightarrow> bool" where
  "HasPrefix s p = (length p \<le> length s \<and> take (length p) s = p)"

definition HasSuffix :: "string \<Rightarrow> string \<Rightarrow> bool" where
  "HasSuffix s suf = (length suf \<le> length s \<and> drop (length s - length suf) s = suf)"

definition TrimPrefix :: "string \<Rightarrow> string \<Rightarrow> string" where
  "TrimPrefix s p = (if HasPrefix s p then drop (length p) s else s)"

definition TrimSuffix :: "string \<Rightarrow> string \<Rightarrow> string" where
  "TrimSuffix s suf = (if HasSuffix s suf then take (length s - length suf) s else s)"

section \<open>The naming transform\<close>

text \<open>
  \<^verbatim>\<open>name.NewFromSnake(s).Camel\<close> belongs to the terrajet library and is not part of this
  repository. The overrides below take it as a parameter \<open>camel\<close>, so that whatever they
  do not owe to the transform is proved for every transform. Where a claim names a
  concrete result, the transform is \<open>SnakeToPascal\<close>.
\<close>

text \<open>
  Modelled from the spec: whether a byte is an ASCII lower-case letter (section 4.1 assumes
  ASCII and no locale-sensitive casing). Part of \<open>SnakeToPascal\<close> below.
\<close>

definition isLowerASCII :: "char \<Rightarrow> bool" where
  "isLowerASCII c = (97 \<le> (of_char c :: nat) \<and> (of_char c :: nat) \<le> 122)"

text \<open>
  Modelled from the spec: clearing the bit of value 32 of a byte, the only bit in which an
  ASCII lower-case letter differs from its capital. Part of \<open>SnakeToPascal\<close> below.
\<close>

fun clearBit5 :: "char \<Rightarrow> char" where
  "clearBit5 (Char b0 b1 b2 b3 b4 b5 b6 b7) = Char b0 b1 b2 b3 b4 False b6 b7"

text \<open>
  Modelled from the spec: the capital of an ASCII lower-case letter; any other byte is left
  as it is. Part of \<open>SnakeToPascal\<close> below.
\<close>

definition toUpperASCII :: "char \<Rightarrow> char" where
  "toUpperASCII c = (if isLowerASCII c then clearBit5 c else c)"

text \<open>
  Modelled from the spec: a "capitalized word" of section 4.1, the word with its first letter
  in upper case. Part of \<open>SnakeToPascal\<close> below.
\<close>

fun capitalize :: "string \<Rightarrow> string" where
  "capitalize [] = []"
| "capitalize (c # cs) = toUpperASCII c # cs"

text \<open>
  Modelled from the spec: the naming transform \<^verbatim>\<open>SnakeToPascal\<close> of section 4.1, which
  stands for terrajet's \<^verbatim>\<open>name.NewFromSnake(s).Camel\<close> (absent from the sources): the
  underscore-delimited words, empty segments skipped, each capitalised (ASCII), concatenated.
\<close>

definition SnakeToPascal :: "string \<Rightarrow> string" where
  "SnakeToPascal s = concat (map capitalize (filter (\<lambda>w. w \<noteq> []) (Split s (CHR ''_''))))"

section \<open>Data model\<close>

text \<open>
  \<^verbatim>\<open>schema.Schema\<close> of the Terraform plugin SDK: the fields this package reads or writes
  (\<^verbatim>\<open>Type\<close>, \<^verbatim>\<open>Optional\<close>, \<^verbatim>\<open>Required\<close>, \<^verbatim>\<open>Description\<close>, \<^verbatim>\<open>Computed\<close>, \<^verbatim>\<open>Sensitive\<close>) and four of
  the others, which stand for the attributes the package never mentions. \<open>zeroSchema\<close> is
  Go's zero value, the value of every field a composite literal leaves out.
\<close>

datatype ValueType =
  TypeInvalid | TypeBool | TypeInt | TypeFloat | TypeString | TypeList | TypeMap | TypeSet

record Schema =
  Type :: ValueType
  Optional :: bool
  Required :: bool
  Description :: string
  Computed :: bool
  ForceNew :: bool
  MaxItems :: int
  MinItems :: int
  Deprecated :: string
  Sensitive :: bool

definition zeroSchema :: Schema where
  "zeroSchema = \<lparr> Type = TypeInvalid, Optional = False, Required = False, Description = [],
     Computed = False, ForceNew = False, MaxItems = 0, MinItems = 0, Deprecated = [],
     Sensitive = False \<rparr>"

text \<open>\<^verbatim>\<open>tjconfig.Reference\<close>; the field \<^verbatim>\<open>Type\<close> is \<open>RefType\<close> here, \<open>Type\<close> being taken.\<close>

record Reference =
  RefType :: string
  Extractor :: string
  RefFieldName :: string
  SelectorFieldName :: string

text \<open>
  \<^verbatim>\<open>tjconfig.ExternalName\<close>: the list of omitted fields, the flag, and the function-valued
  fields (\<^verbatim>\<open>SetIdentifierArgumentFn\<close>, \<^verbatim>\<open>GetExternalNameFn\<close>, \<^verbatim>\<open>GetIDFn\<close>), which this package
  only copies: they are one component \<open>Fns\<close> of an arbitrary type.
\<close>

record 'fn ExternalName =
  Fns :: 'fn
  OmittedFields :: "string list"
  DisableNameInitializer :: bool

text \<open>
  \<^verbatim>\<open>tjconfig.Resource\<close>. \<open>TerraformResource_Schema\<close> is \<^verbatim>\<open>r.TerraformResource.Schema\<close>, a Go
  map from field names to \<^verbatim>\<open>*schema.Schema\<close>; the pointers are taken to be non-nil and
  pairwise distinct, so that writing through one is an update of the map at its key.
  \<open>References\<close> is the (non-nil) map \<^verbatim>\<open>r.References\<close>.
\<close>

record 'fn Resource =
  Name :: string
  ShortGroup :: string
  Version :: string
  Kind :: string
  ExternalName :: "'fn ExternalName"
  TerraformResource_Schema :: "string \<rightharpoonup> Schema"
  References :: "string \<rightharpoonup> Reference"

text \<open>
  A panic aborts the generator. \<open>PanicError m\<close> is \<^verbatim>\<open>panic(err)\<close> for an error whose message
  is \<open>m\<close>; the others are run-time panics of Go: of a slice expression out of bounds, of a
  read or write through a nil pointer, and of a write to a nil map.
\<close>

datatype panic =
  PanicError string | SliceBoundsOutOfRange | NilPointerDereference | AssignmentToNilMap

text \<open>
  \<^verbatim>\<open>tjconfig.ResourceOption\<close> is \<^verbatim>\<open>func(*Resource)\<close>: it mutates the resource in place, or
  panics. Here it returns the mutated resource, or the panic.
\<close>

type_synonym 'fn ResourceOption = "'fn Resource \<Rightarrow> panic + 'fn Resource"

definition andThen :: "panic + 'a \<Rightarrow> ('a \<Rightarrow> panic + 'b) \<Rightarrow> panic + 'b" where
  "andThen x f = (case x of Inl e \<Rightarrow> Inl e | Inr a \<Rightarrow> f a)"

section \<open>Group and kind overrides\<close>

type_synonym GroupKindCalculator = "string \<Rightarrow> panic + (string \<times> string)"

text \<open>
  \<^verbatim>\<open>words[count:]\<close> panics unless \<open>0 \<le> count \<le> len(words)\<close>.
\<close>

definition ReplaceGroupWords :: "(string \<Rightarrow> string) \<Rightarrow> string \<Rightarrow> int \<Rightarrow> GroupKindCalculator" where
  "ReplaceGroupWords camel grp count resource =
     (let words = Split (TrimPrefix resource ''aws_'') (CHR ''_'') in
      if count < 0 \<or> int (length words) < count then Inl SliceBoundsOutOfRange
      else (let snakeKind = Join (drop (nat count) words) ''_'' in
            Inr (grp, camel snakeKind)))"

definition GroupMap :: "(string \<Rightarrow> string) \<Rightarrow> (string \<rightharpoonup> GroupKindCalculator)" where
  "GroupMap camel =
     [''aws_route53_resolver_rule'' \<mapsto> ReplaceGroupWords camel ''route53resolver'' 2,
      ''aws_route53_resolver_rule_association'' \<mapsto> ReplaceGroupWords camel ''route53resolver'' 2,
      ''aws_route_table'' \<mapsto> ReplaceGroupWords camel ''ec2'' 0]"

definition KindMap :: "string \<rightharpoonup> string" where
  "KindMap =
     [''aws_autoscaling_group'' \<mapsto> ''AutoscalingGroup'',
      ''aws_cloudformation_type'' \<mapsto> ''CloudFormationType'',
      ''aws_config_configuration_recorder_status'' \<mapsto> ''AWSConfigurationRecorderStatus'',
      ''aws_cloudtrail'' \<mapsto> ''Trail'']"

definition GroupKindOverrides :: "(string \<Rightarrow> string) \<Rightarrow> 'fn ResourceOption" where
  "GroupKindOverrides camel r =
     (case GroupMap camel (Name r) of
        Some f \<Rightarrow>
          (case f (Name r) of
             Inl e \<Rightarrow> Inl e
           | Inr (g, k) \<Rightarrow> Inr (r\<lparr>ShortGroup := g, Kind := k\<rparr>))
      | None \<Rightarrow> Inr r)"

definition KindOverrides :: "'fn ResourceOption" where
  "KindOverrides r =
     (case KindMap (Name r) of
        Some k \<Rightarrow> Inr (r\<lparr>Kind := k\<rparr>)
      | None \<Rightarrow> Inr r)"

section \<open>Region, tags and external name\<close>

text \<open>
  \<^verbatim>\<open>comments.New(c, comments.WithTFTag("-"))\<close> followed by \<^verbatim>\<open>comment.String()\<close> belongs to
  terrajet. It is the parameter \<open>newComment\<close>: given the text and the Terraform tag, the
  message of the error that \<^verbatim>\<open>New\<close> returns (\<open>Inl\<close>), or the rendered comment (\<open>Inr\<close>).
  \<open>Wrap\<close> is the message of \<^verbatim>\<open>errors.Wrap(err, msg)\<close>.
\<close>

definition regionComment :: string where
  "regionComment =
     ''Region is the region you'' @ [CHR 0x27] @ ''d like your resource to be created in.''
       @ [CHR 0x0A]"

definition Wrap :: "string \<Rightarrow> string \<Rightarrow> string" where
  "Wrap err msg = msg @ '': '' @ err"

definition RegionAddition :: "(string \<Rightarrow> string \<Rightarrow> string + string) \<Rightarrow> 'fn ResourceOption" where
  "RegionAddition newComment r =
     (if ShortGroup r = ''iam'' then Inr r
      else (case newComment regionComment ''-'' of
              Inl err \<Rightarrow> Inl (PanicError (Wrap err ''cannot build comment for region''))
            | Inr comment \<Rightarrow>
                Inr (r\<lparr>TerraformResource_Schema := (TerraformResource_Schema r)
                      (''region'' \<mapsto>
                         zeroSchema\<lparr>Type := TypeString, Required := True,
                                     Description := comment\<rparr>)\<rparr>)))"

definition TagsAllRemoval :: "'fn ResourceOption" where
  "TagsAllRemoval r =
     (case TerraformResource_Schema r ''tags_all'' of
        Some t \<Rightarrow>
          Inr (r\<lparr>TerraformResource_Schema := (TerraformResource_Schema r)
                (''tags_all'' \<mapsto> t\<lparr>Computed := True, Optional := False\<rparr>)\<rparr>)
      | None \<Rightarrow> Inr r)"

text \<open>
  \<^verbatim>\<open>tjconfig.IdentifierFromProvider\<close> is a variable of terrajet: the parameter
  \<open>identifierFromProvider\<close>. The assignment copies the whole struct.
\<close>

definition IdentifierAssignedByAWS :: "'fn ExternalName \<Rightarrow> 'fn ResourceOption" where
  "IdentifierAssignedByAWS identifierFromProvider r =
     Inr (r\<lparr>ExternalName := identifierFromProvider\<rparr>)"

text \<open>The loop of \<^verbatim>\<open>NamePrefixRemoval\<close>: does it return early?\<close>

fun rangeFinds :: "string list \<Rightarrow> string \<Rightarrow> bool" where
  "rangeFinds [] x = False"
| "rangeFinds (f # fs) x = (if f = x then True else rangeFinds fs x)"

definition NamePrefixRemoval :: "'fn ResourceOption" where
  "NamePrefixRemoval r =
     (if rangeFinds (OmittedFields (ExternalName r)) ''name_prefix'' then Inr r
      else Inr (r\<lparr>ExternalName := (ExternalName r)
                  \<lparr>OmittedFields := OmittedFields (ExternalName r) @ [''name_prefix'']\<rparr>\<rparr>))"

section \<open>Known referencers\<close>

text \<open>
  \<^verbatim>\<open>common.PathARNExtractor\<close> is a string constant of the package \<^verbatim>\<open>config/common\<close>, which is
  not among the sources: the parameter \<open>pathARNExtractor\<close>. The first \<^verbatim>\<open>switch\<close> of the loop
  body tests the suffixes, in the order of its cases.
\<close>

definition suffixSwitch ::
  "(string \<Rightarrow> string) \<Rightarrow> string \<Rightarrow> string \<Rightarrow> 'fn Resource \<Rightarrow> 'fn Resource" where
  "suffixSwitch camel pathARNExtractor k r =
     (if HasSuffix k ''role_arn'' then
        r\<lparr>References := (References r)(k \<mapsto>
           \<lparr> RefType = ''github.com/crossplane-contrib/provider-jet-aws/apis/iam/v1alpha2.Role'',
             Extractor = pathARNExtractor, RefFieldName = [], SelectorFieldName = [] \<rparr>)\<rparr>
      else if HasSuffix k ''security_group_ids'' then
        r\<lparr>References := (References r)(k \<mapsto>
           \<lparr> RefType =
               ''github.com/crossplane-contrib/provider-jet-aws/apis/ec2/v1alpha2.SecurityGroup'',
             Extractor = [],
             RefFieldName = TrimSuffix (camel k) ''s'' @ ''Refs'',
             SelectorFieldName = TrimSuffix (camel k) ''s'' @ ''Selector'' \<rparr>)\<rparr>
      else r)"

text \<open>The second \<^verbatim>\<open>switch\<close>, on the field name itself.\<close>

definition nameSwitch :: "string \<Rightarrow> 'fn Resource \<Rightarrow> 'fn Resource" where
  "nameSwitch k r =
     (if k = ''vpc_id'' then
        (let r1 = r\<lparr>References := (References r)(''vpc_id'' \<mapsto>
            \<lparr> RefType = ''github.com/crossplane-contrib/provider-jet-aws/apis/ec2/v1alpha2.VPC'',
              Extractor = [], RefFieldName = ''VpcIdRef'',
              SelectorFieldName = ''VpcIdSelector'' \<rparr>)\<rparr>
         in if ShortGroup r1 = ''ec2'' then
              r1\<lparr>References := (References r1)(''vpc_id'' \<mapsto>
                \<lparr> RefType = ''VPC'', Extractor = [], RefFieldName = ''VpcIdRef'',
                  SelectorFieldName = ''VpcIdSelector'' \<rparr>)\<rparr>
            else r1)
      else if k = ''subnet_ids'' then
        (let r1 = r\<lparr>References := (References r)(''subnet_ids'' \<mapsto>
            \<lparr> RefType = ''github.com/crossplane-contrib/provider-jet-aws/apis/ec2/v1alpha2.Subnet'',
              Extractor = [], RefFieldName = ''SubnetIdRefs'',
              SelectorFieldName = ''SubnetIdSelector'' \<rparr>)\<rparr>
         in if ShortGroup r1 = ''ec2'' then
              r1\<lparr>References := (References r1)(''subnet_ids'' \<mapsto>
                \<lparr> RefType = ''Subnet'', Extractor = [], RefFieldName = ''SubnetIdRefs'',
                  SelectorFieldName = ''SubnetIdSelector'' \<rparr>)\<rparr>
            else r1)
      else if k = ''subnet_id'' then
        r\<lparr>References := (References r)(''subnet_id'' \<mapsto>
           \<lparr> RefType = ''github.com/crossplane-contrib/provider-jet-aws/apis/ec2/v1alpha2.Subnet'',
             Extractor = [], RefFieldName = [], SelectorFieldName = [] \<rparr>)\<rparr>
      else if k = ''security_group_id'' then
        r\<lparr>References := (References r)(''security_group_id'' \<mapsto>
           \<lparr> RefType =
               ''github.com/crossplane-contrib/provider-jet-aws/apis/ec2/v1alpha2.SecurityGroup'',
             Extractor = [], RefFieldName = [], SelectorFieldName = [] \<rparr>)\<rparr>
      else if k = ''kms_key_id'' then
        r\<lparr>References := (References r)(''kms_key_id'' \<mapsto>
           \<lparr> RefType = ''github.com/crossplane-contrib/provider-jet-aws/apis/kms/v1alpha2.Key'',
             Extractor = [], RefFieldName = [], SelectorFieldName = [] \<rparr>)\<rparr>
      else if k = ''kms_key_arn'' then
        r\<lparr>References := (References r)(''kms_key_arn'' \<mapsto>
           \<lparr> RefType = ''github.com/crossplane-contrib/provider-jet-aws/apis/kms/v1alpha2.Key'',
             Extractor = [], RefFieldName = [], SelectorFieldName = [] \<rparr>)\<rparr>
      else if k = ''kms_key'' then
        r\<lparr>References := (References r)(''kms_key'' \<mapsto>
           \<lparr> RefType = ''github.com/crossplane-contrib/provider-jet-aws/apis/kms/v1alpha2.Key'',
             Extractor = [], RefFieldName = [], SelectorFieldName = [] \<rparr>)\<rparr>
      else r)"

text \<open>The body of the loop for the entry \<open>k, s\<close>; \<^verbatim>\<open>continue\<close> leaves the resource as it is.\<close>

definition referencerBody ::
  "(string \<Rightarrow> string) \<Rightarrow> string \<Rightarrow> string \<Rightarrow> Schema \<Rightarrow> 'fn Resource \<Rightarrow> 'fn Resource" where
  "referencerBody camel pathARNExtractor k s r =
     (if (Computed s \<and> \<not> Optional s) \<or> Sensitive s then r
      else nameSwitch k (suffixSwitch camel pathARNExtractor k r))"

text \<open>
  \<^verbatim>\<open>for k, s := range r.TerraformResource.Schema\<close> visits every entry of the map once, in an
  order Go does not specify. The order is the parameter \<open>ks\<close>, and \<open>rangeOrder ks m\<close> says that
  \<open>ks\<close> is an order in which Go may visit the keys of \<open>m\<close>.
\<close>

definition rangeOrder :: "string list \<Rightarrow> (string \<rightharpoonup> 'v) \<Rightarrow> bool" where
  "rangeOrder ks m = (distinct ks \<and> set ks = dom m)"

definition rangeStep ::
  "(string \<Rightarrow> string) \<Rightarrow> string \<Rightarrow> string \<Rightarrow> 'fn Resource \<Rightarrow> 'fn Resource" where
  "rangeStep camel pathARNExtractor k r =
     (case TerraformResource_Schema r k of
        None \<Rightarrow> r
      | Some s \<Rightarrow> referencerBody camel pathARNExtractor k s r)"

definition KnownReferencers ::
  "(string \<Rightarrow> string) \<Rightarrow> string \<Rightarrow> string list \<Rightarrow> 'fn ResourceOption" where
  "KnownReferencers camel pathARNExtractor ks r =
     Inr (fold (rangeStep camel pathARNExtractor) ks r)"

section \<open>The default chain\<close>

text \<open>
  The options that \<^verbatim>\<open>GetProvider\<close> hands to \<^verbatim>\<open>tjconfig.DefaultResource\<close>, in its order.
\<close>

definition defaultResourceOptions ::
  "(string \<Rightarrow> string) \<Rightarrow> (string \<Rightarrow> string \<Rightarrow> string + string) \<Rightarrow> 'fn ExternalName \<Rightarrow> string
     \<Rightarrow> string list \<Rightarrow> 'fn ResourceOption list" where
  "defaultResourceOptions camel newComment identifierFromProvider pathARNExtractor ks =
     [GroupKindOverrides camel,
      KindOverrides,
      RegionAddition newComment,
      TagsAllRemoval,
      IdentifierAssignedByAWS identifierFromProvider,
      NamePrefixRemoval,
      KnownReferencers camel pathARNExtractor ks]"

text \<open>
  Modelled from the spec: \<^verbatim>\<open>tjconfig.DefaultResource\<close> (terrajet, absent from the sources)
  builds a resource and then "invokes the configured chain of mutators in a fixed order"
  (section 2). \<open>applyOptions\<close> is that invocation; a panic ends it.
\<close>

fun applyOptions :: "'fn ResourceOption list \<Rightarrow> 'fn ResourceOption" where
  "applyOptions [] r = Inr r"
| "applyOptions (f # fs) r = (case f r of Inl e \<Rightarrow> Inl e | Inr r' \<Rightarrow> applyOptions fs r')"

text \<open>
  \<^verbatim>\<open>defaultResourceFn\<close> of \<^verbatim>\<open>GetProvider\<close>, applied to the resource \<open>r0\<close> that
  \<^verbatim>\<open>tjconfig.DefaultResource\<close> has built from the name and the Terraform resource.
\<close>

definition defaultResourceFn ::
  "(string \<Rightarrow> string) \<Rightarrow> (string \<Rightarrow> string \<Rightarrow> string + string) \<Rightarrow> 'fn ExternalName \<Rightarrow> string
     \<Rightarrow> string list \<Rightarrow> 'fn ResourceOption" where
  "defaultResourceFn camel newComment identifierFromProvider pathARNExtractor ks r0 =
     applyOptions
       (defaultResourceOptions camel newComment identifierFromProvider pathARNExtractor ks) r0"

section \<open>Descriptors with nil maps and pointers\<close>



















section \<open>Auxiliary definitions\<close>

text \<open>
  \<open>wired camel pathARNExtractor r k\<close> is the reference that the loop body writes for the
  field \<open>k\<close> of \<open>r\<close>, if it writes one: it is read off a run of the body on \<open>r\<close> with the
  references cleared.
\<close>

definition wired ::
  "(string \<Rightarrow> string) \<Rightarrow> string \<Rightarrow> 'fn Resource \<Rightarrow> string \<Rightarrow> Reference option" where
  "wired camel pathARNExtractor r k =
     References (rangeStep camel pathARNExtractor k (r\<lparr>References := Map.empty\<rparr>)) k"

text \<open>The field that \<^verbatim>\<open>RegionAddition\<close> stores, for the rendered comment \<open>d\<close>.\<close>

definition regionField :: "string \<Rightarrow> Schema" where
  "regionField d = zeroSchema\<lparr>Type := TypeString, Required := True, Description := d\<rparr>"

subsection \<open>Sample inputs\<close>

text \<open>
  Two comment builders, one that accepts every text and renders it with its tag marker, one
  that rejects every text; an external name that omits nothing; and a resource with a given
  name, group and schema.
\<close>

definition acceptingComment :: "string \<Rightarrow> string \<Rightarrow> string + string" where
  "acceptingComment text tag = Inr (text @ ''+terrajet:crd:field:TFTag='' @ tag)"


definition exampleExternalName :: "unit ExternalName" where
  "exampleExternalName = \<lparr> Fns = (), OmittedFields = [], DisableNameInitializer = True \<rparr>"

definition exampleResource :: "string \<Rightarrow> string \<Rightarrow> (string \<rightharpoonup> Schema) \<Rightarrow> unit Resource" where
  "exampleResource n g sch =
     \<lparr> Name = n, ShortGroup = g, Version = ''v1alpha1'', Kind = ''Example'',
       ExternalName = exampleExternalName, TerraformResource_Schema = sch,
       References = Map.empty \<rparr>"

definition oldRegion :: Schema where
  "oldRegion = zeroSchema\<lparr>Type := TypeList, Optional := True, Computed := True, ForceNew := True,
     MaxItems := 3, Description := ''Regions to replicate to.''\<rparr>"

text \<open>
  Schema fields: a status field and a settable field named \<^verbatim>\<open>vpc_id\<close>, a settable set of security
  group ids, a settable \<^verbatim>\<open>tags_all\<close>; a subnet resource with two fields; an external name that
  omits two fields, and the subnet with that external name.
\<close>

definition statusVpcId :: Schema where
  "statusVpcId = zeroSchema\<lparr>Type := TypeString, Computed := True\<rparr>"

definition settableVpcId :: Schema where
  "settableVpcId = zeroSchema\<lparr>Type := TypeString, Optional := True, ForceNew := True\<rparr>"

definition securityGroupIds :: Schema where
  "securityGroupIds = zeroSchema\<lparr>Type := TypeSet, Optional := True\<rparr>"

definition settableTagsAll :: Schema where
  "settableTagsAll = zeroSchema\<lparr>Type := TypeMap, Optional := True, Computed := True\<rparr>"

definition exampleSubnet :: "unit Resource" where
  "exampleSubnet = exampleResource ''aws_subnet'' ''ec2''
     [''vpc_id'' \<mapsto> settableVpcId, ''tags_all'' \<mapsto> settableTagsAll]"

definition nameAsIdentifier :: "unit ExternalName" where
  "nameAsIdentifier =
     \<lparr> Fns = (), OmittedFields = [''name'', ''name_prefix''], DisableNameInitializer = False \<rparr>"

definition namedSubnet :: "unit Resource" where
  "namedSubnet = exampleSubnet\<lparr>ExternalName := nameAsIdentifier\<rparr>"



definition acronymWord :: "string \<Rightarrow> string" where
  "acronymWord w = (if w = ''db'' then ''DB'' else capitalize w)"

definition acronymPascal :: "string \<Rightarrow> string" where
  "acronymPascal s = concat (map acronymWord (filter (\<lambda>w. w \<noteq> []) (Split s (CHR ''_''))))"






section \<open>Facts about the helpers\<close>

lemma rangeFinds_set: "rangeFinds fs x = (x \<in> set fs)"
  by (induction fs) auto

lemma HasSuffix_append: "HasSuffix s suf = (\<exists>p. s = p @ suf)"
proof
  assume "HasSuffix s suf"
  then have "s = take (length s - length suf) s @ suf"
    by (metis HasSuffix_def append_take_drop_id)
  then show "\<exists>p. s = p @ suf" ..
next
  assume "\<exists>p. s = p @ suf"
  then show "HasSuffix s suf" by (auto simp: HasSuffix_def)
qed

lemma HasSuffix_last: "HasSuffix s suf \<Longrightarrow> suf \<noteq> [] \<Longrightarrow> last s = last suf"
  by (auto simp: HasSuffix_append)

lemma HasSuffix_length: "HasSuffix s suf \<Longrightarrow> length suf \<le> length s"
  by (simp add: HasSuffix_def)

lemma sg_ids_not_role_arn:
  "HasSuffix k ''security_group_ids'' \<Longrightarrow> \<not> HasSuffix k ''role_arn''"
  by (auto dest!: HasSuffix_last)

lemma sg_ids_not_exact:
  assumes "HasSuffix k ''security_group_ids''"
  shows "k \<notin> {''vpc_id'', ''subnet_ids'', ''subnet_id'', ''security_group_id'', ''kms_key_id'',
    ''kms_key_arn'', ''kms_key''}"
  using HasSuffix_length [OF assms] by auto

lemma split_rule: "Split (TrimPrefix ''aws_route53_resolver_rule'' ''aws_'') (CHR ''_'') = [''route53'', ''resolver'', ''rule'']"
  by (simp add: TrimPrefix_def HasPrefix_def)

lemma split_assoc: "Split (TrimPrefix ''aws_route53_resolver_rule_association'' ''aws_'') (CHR ''_'') = [''route53'', ''resolver'', ''rule'', ''association'']"
  by (simp add: TrimPrefix_def HasPrefix_def)

lemma split_table: "Split (TrimPrefix ''aws_route_table'' ''aws_'') (CHR ''_'') = [''route'', ''table'']"
  by (simp add: TrimPrefix_def HasPrefix_def)

lemma kind_rule: "SnakeToPascal ''rule'' = ''Rule''"
  by (simp add: SnakeToPascal_def toUpperASCII_def isLowerASCII_def)

lemma kind_table: "SnakeToPascal ''route_table'' = ''RouteTable''"
  by (simp add: SnakeToPascal_def toUpperASCII_def isLowerASCII_def)





lemma TrimSuffix_Ids: "TrimSuffix (p @ ''Ids'') ''s'' = p @ ''Id''"
  by (simp add: TrimSuffix_def HasSuffix_def)

lemma IdRefs_not_claimed: "p @ ''IdRefs'' \<noteq> ''DbSecurityGroupRefs''"
proof
  assume "p @ ''IdRefs'' = ''DbSecurityGroupRefs''"
  then have "rev (p @ ''IdRefs'') = rev ''DbSecurityGroupRefs''" by (rule arg_cong)
  then show False by simp
qed

lemma IdSelector_not_claimed: "p @ ''IdSelector'' \<noteq> ''DbSecurityGroupSelector''"
proof
  assume "p @ ''IdSelector'' = ''DbSecurityGroupSelector''"
  then have "rev (p @ ''IdSelector'') = rev ''DbSecurityGroupSelector''" by (rule arg_cong)
  then show False by simp
qed

lemma SnakeToPascal_db: "SnakeToPascal ''db_security_group_ids'' = ''DbSecurityGroup'' @ ''Ids''"
  by (simp add: SnakeToPascal_def toUpperASCII_def isLowerASCII_def)

lemma acronymPascal_db: "acronymPascal ''db_security_group_ids'' = ''DBSecurityGroup'' @ ''Ids''"
  by (simp add: acronymPascal_def acronymWord_def toUpperASCII_def isLowerASCII_def)





section \<open>Group and kind overrides: the table\<close>

lemma ReplaceGroupWords_in_range:
  assumes "0 \<le> count" "count \<le> int (length (Split (TrimPrefix resource ''aws_'') (CHR ''_'')))"
  shows "ReplaceGroupWords camel grp count resource =
     Inr (grp, camel (Join (drop (nat count) (Split (TrimPrefix resource ''aws_'') (CHR ''_''))) ''_''))"
  using assms by (simp add: ReplaceGroupWords_def Let_def)


lemma GroupMap_cases:
  assumes "GroupMap camel n = Some f"
  obtains "n = ''aws_route53_resolver_rule''" "f = ReplaceGroupWords camel ''route53resolver'' 2"
  | "n = ''aws_route53_resolver_rule_association''" "f = ReplaceGroupWords camel ''route53resolver'' 2"
  | "n = ''aws_route_table''" "f = ReplaceGroupWords camel ''ec2'' 0"
  using assms unfolding GroupMap_def by (auto split: if_splits)

lemma GroupMap_entry:
  assumes "GroupMap camel n = Some f"
  shows "\<exists>grp count. f = ReplaceGroupWords camel grp count \<and> 0 \<le> count
     \<and> count \<le> int (length (Split (TrimPrefix n ''aws_'') (CHR ''_'')))"
  using assms
proof (cases rule: GroupMap_cases)
  case 1
  then show ?thesis using split_rule by (intro exI [of _ "''route53resolver''"] exI [of _ 2]) simp
next
  case 2
  then show ?thesis using split_assoc by (intro exI [of _ "''route53resolver''"] exI [of _ 2]) simp
next
  case 3
  then show ?thesis by (intro exI [of _ "''ec2''"] exI [of _ 0]) simp
qed

lemma GroupMap_total:
  assumes "GroupMap camel n = Some f"
  shows "\<exists>g k. f n = Inr (g, k)"
proof -
  from GroupMap_entry [OF assms] obtain grp count where
    "f = ReplaceGroupWords camel grp count" "0 \<le> count"
    "count \<le> int (length (Split (TrimPrefix n ''aws_'') (CHR ''_'')))" by blast
  then show ?thesis by (simp add: ReplaceGroupWords_in_range)
qed

lemma GroupKindOverrides_total: "\<exists>r'. GroupKindOverrides camel r = Inr r'"
proof (cases "GroupMap camel (Name r)")
  case None
  then show ?thesis by (simp add: GroupKindOverrides_def)
next
  case (Some f)
  with GroupMap_total [OF Some] show ?thesis by (auto simp: GroupKindOverrides_def)
qed

lemma GroupKindOverrides_entry:
  assumes "GroupMap camel (Name r) = Some (ReplaceGroupWords camel grp count)"
    and "0 \<le> count"
    and "count \<le> int (length (Split (TrimPrefix (Name r) ''aws_'') (CHR ''_'')))"
  shows "GroupKindOverrides camel r =
     Inr (r\<lparr>ShortGroup := grp,
            Kind := camel (Join (drop (nat count)
                     (Split (TrimPrefix (Name r) ''aws_'') (CHR ''_''))) ''_'')\<rparr>)"
  using assms by (simp add: GroupKindOverrides_def ReplaceGroupWords_in_range)

lemma GroupMap_rule:
  "GroupMap camel ''aws_route53_resolver_rule'' = Some (ReplaceGroupWords camel ''route53resolver'' 2)"
  by (simp add: GroupMap_def)

lemma GroupMap_table:
  "GroupMap camel ''aws_route_table'' = Some (ReplaceGroupWords camel ''ec2'' 0)"
  by (simp add: GroupMap_def)


text \<open>
  C2. For every resource whose name is in \<open>GroupMap\<close>, the entry is \<open>ReplaceGroupWords\<close> for a
  configured group \<open>grp\<close> and a configured number \<open>count\<close> of words; it returns the group \<open>grp\<close>
  as it is, and as kind the naming transform of: the name without its prefix \<^verbatim>\<open>aws_\<close>, split at
  \<^verbatim>\<open>_\<close>, the first \<open>count\<close> words dropped, the rest joined with \<^verbatim>\<open>_\<close>; \<open>GroupKindOverrides\<close> stores
  both in the resource. The entry of \<^verbatim>\<open>aws_route53_resolver_rule\<close> drops 2 words and the entry of
  \<^verbatim>\<open>aws_route_table\<close> drops none; with the naming transform of the spec they give the kinds
  \<^verbatim>\<open>Rule\<close> (group \<^verbatim>\<open>route53resolver\<close>) and \<^verbatim>\<open>RouteTable\<close> (group \<^verbatim>\<open>ec2\<close>).
\<close>

theorem GroupKindOverrides_kind:
  "(GroupMap camel (Name r) = Some f \<longrightarrow>
      (\<exists>grp count. f = ReplaceGroupWords camel grp count \<and> 0 \<le> count
         \<and> f (Name r) =
             Inr (grp, camel (Join (drop (nat count)
                    (Split (TrimPrefix (Name r) ''aws_'') (CHR ''_''))) ''_''))
         \<and> GroupKindOverrides camel r =
             Inr (r\<lparr>ShortGroup := grp,
                    Kind := camel (Join (drop (nat count)
                      (Split (TrimPrefix (Name r) ''aws_'') (CHR ''_''))) ''_'')\<rparr>)))
   \<and> GroupMap camel ''aws_route53_resolver_rule''
       = Some (ReplaceGroupWords camel ''route53resolver'' 2)
   \<and> GroupMap camel ''aws_route_table'' = Some (ReplaceGroupWords camel ''ec2'' 0)
   \<and> (Name r = ''aws_route53_resolver_rule'' \<longrightarrow>
        GroupKindOverrides SnakeToPascal r = Inr (r\<lparr>ShortGroup := ''route53resolver'', Kind := ''Rule''\<rparr>))
   \<and> (Name r = ''aws_route_table'' \<longrightarrow>
        GroupKindOverrides SnakeToPascal r = Inr (r\<lparr>ShortGroup := ''ec2'', Kind := ''RouteTable''\<rparr>))"
proof (intro conjI impI)
  assume f: "GroupMap camel (Name r) = Some f"
  from GroupMap_entry [OF f] obtain grp count where
    e: "f = ReplaceGroupWords camel grp count" "0 \<le> count"
      "count \<le> int (length (Split (TrimPrefix (Name r) ''aws_'') (CHR ''_'')))" by blast
  from f e have "GroupKindOverrides camel r =
     Inr (r\<lparr>ShortGroup := grp,
            Kind := camel (Join (drop (nat count)
                     (Split (TrimPrefix (Name r) ''aws_'') (CHR ''_''))) ''_'')\<rparr>)"
    by (intro GroupKindOverrides_entry) simp_all
  with e show "\<exists>grp count. f = ReplaceGroupWords camel grp count \<and> 0 \<le> count
         \<and> f (Name r) =
             Inr (grp, camel (Join (drop (nat count)
                    (Split (TrimPrefix (Name r) ''aws_'') (CHR ''_''))) ''_''))
         \<and> GroupKindOverrides camel r =
             Inr (r\<lparr>ShortGroup := grp,
                    Kind := camel (Join (drop (nat count)
                      (Split (TrimPrefix (Name r) ''aws_'') (CHR ''_''))) ''_'')\<rparr>)"
    by (auto simp: ReplaceGroupWords_in_range)
next
  show "GroupMap camel ''aws_route53_resolver_rule''
       = Some (ReplaceGroupWords camel ''route53resolver'' 2)"
    by (rule GroupMap_rule)
next
  show "GroupMap camel ''aws_route_table'' = Some (ReplaceGroupWords camel ''ec2'' 0)"
    by (rule GroupMap_table)
next
  assume n: "Name r = ''aws_route53_resolver_rule''"
  have "GroupKindOverrides SnakeToPascal r =
     Inr (r\<lparr>ShortGroup := ''route53resolver'',
            Kind := SnakeToPascal (Join (drop (nat 2)
                     (Split (TrimPrefix (Name r) ''aws_'') (CHR ''_''))) ''_'')\<rparr>)"
    by (rule GroupKindOverrides_entry) (simp_all add: n GroupMap_rule split_rule)
  then show "GroupKindOverrides SnakeToPascal r
      = Inr (r\<lparr>ShortGroup := ''route53resolver'', Kind := ''Rule''\<rparr>)"
    by (simp add: n split_rule kind_rule)
next
  assume n: "Name r = ''aws_route_table''"
  have "GroupKindOverrides SnakeToPascal r =
     Inr (r\<lparr>ShortGroup := ''ec2'',
            Kind := SnakeToPascal (Join (drop (nat 0)
                     (Split (TrimPrefix (Name r) ''aws_'') (CHR ''_''))) ''_'')\<rparr>)"
    by (rule GroupKindOverrides_entry) (simp_all add: n GroupMap_table split_table)
  then show "GroupKindOverrides SnakeToPascal r
      = Inr (r\<lparr>ShortGroup := ''ec2'', Kind := ''RouteTable''\<rparr>)"
    by (simp add: n split_table kind_table)
qed

theorem GroupKindOverrides_kind_witness:
  "Name (exampleResource ''aws_route53_resolver_rule'' ''route53'' Map.empty)
     = ''aws_route53_resolver_rule''
   \<and> GroupMap SnakeToPascal ''aws_route53_resolver_rule''
       = Some (ReplaceGroupWords SnakeToPascal ''route53resolver'' 2)
   \<and> ReplaceGroupWords SnakeToPascal ''route53resolver'' 2 ''aws_route53_resolver_rule''
       = Inr (''route53resolver'', ''Rule'')
   \<and> GroupKindOverrides SnakeToPascal
        (exampleResource ''aws_route53_resolver_rule'' ''route53'' Map.empty)
       = Inr ((exampleResource ''aws_route53_resolver_rule'' ''route53'' Map.empty)
                \<lparr>ShortGroup := ''route53resolver'', Kind := ''Rule''\<rparr>)
   \<and> Name (exampleResource ''aws_route_table'' ''route'' Map.empty) = ''aws_route_table''
   \<and> GroupKindOverrides SnakeToPascal (exampleResource ''aws_route_table'' ''route'' Map.empty)
       = Inr ((exampleResource ''aws_route_table'' ''route'' Map.empty)
                \<lparr>ShortGroup := ''ec2'', Kind := ''RouteTable''\<rparr>)"
proof -
  have 1: "Name (exampleResource ''aws_route53_resolver_rule'' ''route53'' Map.empty)
     = ''aws_route53_resolver_rule''"
    by (simp add: exampleResource_def)
  have 2: "Name (exampleResource ''aws_route_table'' ''route'' Map.empty) = ''aws_route_table''"
    by (simp add: exampleResource_def)
  have 3: "ReplaceGroupWords SnakeToPascal ''route53resolver'' 2 ''aws_route53_resolver_rule''
       = Inr (''route53resolver'', ''Rule'')"
    by (simp add: ReplaceGroupWords_def split_rule kind_rule)
  from GroupKindOverrides_kind
      [of SnakeToPascal "exampleResource ''aws_route53_resolver_rule'' ''route53'' Map.empty"]
    GroupKindOverrides_kind
      [of SnakeToPascal "exampleResource ''aws_route_table'' ''route'' Map.empty"]
    1 2 3
  show ?thesis by simp
qed


section \<open>Region injection\<close>

lemma RegionAddition_iam: "ShortGroup r = ''iam'' \<Longrightarrow> RegionAddition newComment r = Inr r"
  by (simp add: RegionAddition_def)

lemma RegionAddition_ok:
  "ShortGroup r \<noteq> ''iam'' \<Longrightarrow> newComment regionComment ''-'' = Inr d \<Longrightarrow>
   RegionAddition newComment r =
     Inr (r\<lparr>TerraformResource_Schema := (TerraformResource_Schema r)
           (''region'' \<mapsto> zeroSchema\<lparr>Type := TypeString, Required := True, Description := d\<rparr>)\<rparr>)"
  by (simp add: RegionAddition_def)

lemma RegionAddition_panic:
  "ShortGroup r \<noteq> ''iam'' \<Longrightarrow> newComment regionComment ''-'' = Inl err \<Longrightarrow>
   RegionAddition newComment r = Inl (PanicError (Wrap err ''cannot build comment for region''))"
  by (simp add: RegionAddition_def)

text \<open>
  C5. When the group is not \<^verbatim>\<open>iam\<close> (and the comment builder renders the fixed text with the
  Terraform tag \<^verbatim>\<open>-\<close> as \<open>d\<close>), \<^verbatim>\<open>RegionAddition\<close> returns a resource whose schema has a field
  \<^verbatim>\<open>region\<close> of type string, required, described by \<open>d\<close>; the schema gains no other key. When
  the group is \<^verbatim>\<open>iam\<close>, the resource comes back as it was, so no \<^verbatim>\<open>region\<close> field is added.
\<close>

theorem RegionAddition_adds_region:
  "(ShortGroup r \<noteq> ''iam'' \<and> newComment regionComment ''-'' = Inr d \<longrightarrow>
      (\<exists>r' f. RegionAddition newComment r = Inr r'
         \<and> TerraformResource_Schema r' ''region'' = Some f
         \<and> Type f = TypeString \<and> Required f \<and> Description f = d
         \<and> dom (TerraformResource_Schema r') = insert ''region'' (dom (TerraformResource_Schema r))))
   \<and> (ShortGroup r = ''iam'' \<longrightarrow>
        RegionAddition newComment r = Inr r
        \<and> (TerraformResource_Schema r ''region'' = None \<longrightarrow>
            (\<forall>r'. RegionAddition newComment r = Inr r' \<longrightarrow>
               TerraformResource_Schema r' ''region'' = None)))"
  by (auto simp: RegionAddition_iam RegionAddition_ok zeroSchema_def)

theorem RegionAddition_adds_region_witness:
  "ShortGroup (exampleResource ''aws_vpc'' ''ec2'' Map.empty) \<noteq> ''iam''
   \<and> acceptingComment regionComment ''-'' = Inr (regionComment @ ''+terrajet:crd:field:TFTag=-'')
   \<and> (\<exists>r' f. RegionAddition acceptingComment (exampleResource ''aws_vpc'' ''ec2'' Map.empty) = Inr r'
         \<and> TerraformResource_Schema r' ''region'' = Some f
         \<and> Type f = TypeString \<and> Required f
         \<and> Description f = regionComment @ ''+terrajet:crd:field:TFTag=-'')
   \<and> ShortGroup (exampleResource ''aws_iam_role'' ''iam'' Map.empty) = ''iam''
   \<and> RegionAddition acceptingComment (exampleResource ''aws_iam_role'' ''iam'' Map.empty)
       = Inr (exampleResource ''aws_iam_role'' ''iam'' Map.empty)
   \<and> TerraformResource_Schema (exampleResource ''aws_iam_role'' ''iam'' Map.empty) ''region'' = None"
  using RegionAddition_adds_region
     [of "exampleResource ''aws_vpc'' ''ec2'' Map.empty" acceptingComment
         "regionComment @ ''+terrajet:crd:field:TFTag=-''"]
    RegionAddition_adds_region
     [of "exampleResource ''aws_iam_role'' ''iam'' Map.empty" acceptingComment]
  by (auto simp: exampleResource_def acceptingComment_def)

text \<open>
  C4, as the claim states it, fails: a resource of the group \<^verbatim>\<open>example\<close> whose schema already
  has a field \<^verbatim>\<open>region\<close> (a computed, optional list that forces replacement, at most three
  items) comes back with a \<^verbatim>\<open>region\<close> field of type string in which every one of those
  attributes is reset. The new field is not the old one with only \<^verbatim>\<open>Required\<close> and
  \<^verbatim>\<open>Description\<close> changed.
\<close>

theorem RegionAddition_existing_field_counterexample:
  "TerraformResource_Schema
      (exampleResource ''aws_example'' ''example'' [''region'' \<mapsto> oldRegion]) ''region''
     = Some oldRegion
   \<and> RegionAddition acceptingComment
        (exampleResource ''aws_example'' ''example'' [''region'' \<mapsto> oldRegion])
     = Inr (exampleResource ''aws_example'' ''example''
         [''region'' \<mapsto> regionField (regionComment @ ''+terrajet:crd:field:TFTag=-'')])
   \<and> Type oldRegion = TypeList \<and> Optional oldRegion \<and> Computed oldRegion \<and> ForceNew oldRegion
   \<and> MaxItems oldRegion = 3
   \<and> Type (regionField (regionComment @ ''+terrajet:crd:field:TFTag=-'')) = TypeString
   \<and> \<not> Optional (regionField (regionComment @ ''+terrajet:crd:field:TFTag=-''))
   \<and> \<not> Computed (regionField (regionComment @ ''+terrajet:crd:field:TFTag=-''))
   \<and> \<not> ForceNew (regionField (regionComment @ ''+terrajet:crd:field:TFTag=-''))
   \<and> MaxItems (regionField (regionComment @ ''+terrajet:crd:field:TFTag=-'')) = 0
   \<and> regionField (regionComment @ ''+terrajet:crd:field:TFTag=-'')
       \<noteq> oldRegion\<lparr>Required := True,
                     Description := regionComment @ ''+terrajet:crd:field:TFTag=-''\<rparr>"
  by (simp add: exampleResource_def RegionAddition_def acceptingComment_def oldRegion_def
      regionField_def zeroSchema_def)

text \<open>
  C4, amended. When the group is not \<^verbatim>\<open>iam\<close>, the comment builder renders the fixed text as
  \<open>d\<close>, and the schema already has a field \<^verbatim>\<open>region\<close>, \<^verbatim>\<open>RegionAddition\<close> replaces that field
  by the fresh field \<open>regionField d\<close> (type string, required, description \<open>d\<close>, every other
  attribute at its zero value), whatever the field was. The field is not duplicated: the
  schema has the same keys as before. Every other field, and everything of the resource
  outside the schema, is unchanged.
\<close>

theorem RegionAddition_replaces_existing:
  assumes "ShortGroup r \<noteq> ''iam''"
    and "newComment regionComment ''-'' = Inr d"
    and "TerraformResource_Schema r ''region'' = Some f"
  shows "\<exists>r'. RegionAddition newComment r = Inr r'
           \<and> TerraformResource_Schema r' ''region'' = Some (regionField d)
           \<and> dom (TerraformResource_Schema r') = dom (TerraformResource_Schema r)
           \<and> (\<forall>k. k \<noteq> ''region'' \<longrightarrow>
                  TerraformResource_Schema r' k = TerraformResource_Schema r k)
           \<and> r'\<lparr>TerraformResource_Schema := TerraformResource_Schema r\<rparr> = r"
  using assms by (auto simp: RegionAddition_ok regionField_def)

theorem RegionAddition_replaces_existing_witness:
  "ShortGroup (exampleResource ''aws_example'' ''example'' [''region'' \<mapsto> oldRegion]) \<noteq> ''iam''
   \<and> acceptingComment regionComment ''-'' = Inr (regionComment @ ''+terrajet:crd:field:TFTag=-'')
   \<and> TerraformResource_Schema
        (exampleResource ''aws_example'' ''example'' [''region'' \<mapsto> oldRegion]) ''region''
       = Some oldRegion
   \<and> (\<exists>r'. RegionAddition acceptingComment
               (exampleResource ''aws_example'' ''example'' [''region'' \<mapsto> oldRegion]) = Inr r'
         \<and> TerraformResource_Schema r' ''region''
             = Some (regionField (regionComment @ ''+terrajet:crd:field:TFTag=-''))
         \<and> dom (TerraformResource_Schema r') = {''region''})"
proof -
  have 1: "ShortGroup (exampleResource ''aws_example'' ''example'' [''region'' \<mapsto> oldRegion])
      \<noteq> ''iam''"
    by (simp add: exampleResource_def)
  have 2: "acceptingComment regionComment ''-''
      = Inr (regionComment @ ''+terrajet:crd:field:TFTag=-'')"
    by (simp add: acceptingComment_def)
  have 3: "TerraformResource_Schema
      (exampleResource ''aws_example'' ''example'' [''region'' \<mapsto> oldRegion]) ''region''
      = Some oldRegion"
    by (simp add: exampleResource_def)
  from RegionAddition_replaces_existing
     [of "exampleResource ''aws_example'' ''example'' [''region'' \<mapsto> oldRegion]"
         acceptingComment "regionComment @ ''+terrajet:crd:field:TFTag=-''" oldRegion, OF 1 2 3]
    1 2 3 show ?thesis
    by (auto simp: exampleResource_def)
qed

section \<open>Neutralising \<^verbatim>\<open>tags_all\<close>\<close>

text \<open>
  C8. When the schema has a field \<^verbatim>\<open>tags_all\<close>, \<^verbatim>\<open>TagsAllRemoval\<close> returns a resource in which
  that field is still present, is computed and is not optional, its other attributes being
  what they were, and the schema has the same keys. When the schema has no such field, the
  resource comes back unchanged.
\<close>

theorem TagsAllRemoval_computed_only:
  "(TerraformResource_Schema r ''tags_all'' = Some t \<longrightarrow>
      (\<exists>r' t'. TagsAllRemoval r = Inr r' \<and> TerraformResource_Schema r' ''tags_all'' = Some t'
         \<and> Computed t' \<and> \<not> Optional t' \<and> t' = t\<lparr>Computed := True, Optional := False\<rparr>
         \<and> dom (TerraformResource_Schema r') = dom (TerraformResource_Schema r)))
   \<and> (TerraformResource_Schema r ''tags_all'' = None \<longrightarrow> TagsAllRemoval r = Inr r)"
  by (auto simp: TagsAllRemoval_def)

theorem TagsAllRemoval_computed_only_witness:
  "TerraformResource_Schema
     (exampleResource ''aws_vpc'' ''ec2''
        [''tags_all'' \<mapsto> zeroSchema\<lparr>Type := TypeMap, Optional := True, Computed := True\<rparr>])
     ''tags_all'' = Some (zeroSchema\<lparr>Type := TypeMap, Optional := True, Computed := True\<rparr>)
   \<and> (\<exists>r'. TagsAllRemoval
         (exampleResource ''aws_vpc'' ''ec2''
            [''tags_all'' \<mapsto> zeroSchema\<lparr>Type := TypeMap, Optional := True, Computed := True\<rparr>])
         = Inr r'
       \<and> TerraformResource_Schema r' ''tags_all''
           = Some (zeroSchema\<lparr>Type := TypeMap, Computed := True\<rparr>))
   \<and> TerraformResource_Schema (exampleResource ''aws_vpc'' ''ec2'' Map.empty) ''tags_all'' = None
   \<and> TagsAllRemoval (exampleResource ''aws_vpc'' ''ec2'' Map.empty)
       = Inr (exampleResource ''aws_vpc'' ''ec2'' Map.empty)"
  using TagsAllRemoval_computed_only
     [of "exampleResource ''aws_vpc'' ''ec2''
        [''tags_all'' \<mapsto> zeroSchema\<lparr>Type := TypeMap, Optional := True, Computed := True\<rparr>]"
       "zeroSchema\<lparr>Type := TypeMap, Optional := True, Computed := True\<rparr>"]
    TagsAllRemoval_computed_only [of "exampleResource ''aws_vpc'' ''ec2'' Map.empty"]
  by (auto simp: exampleResource_def zeroSchema_def)

section \<open>Known referencers: what the loop computes\<close>

text \<open>
  Each run of the loop body changes nothing but the reference of its own key, and what it
  stores there does not depend on the references already present. So the loop computes the
  same resource in every order of the keys.
\<close>

lemma clear_suffixSwitch:
  "(suffixSwitch camel arn k r)\<lparr>References := m\<rparr> = r\<lparr>References := m\<rparr>"
  by (simp add: suffixSwitch_def)

lemma clear_nameSwitch: "(nameSwitch k r)\<lparr>References := m\<rparr> = r\<lparr>References := m\<rparr>"
  unfolding nameSwitch_def Let_def by (auto split: if_splits)

lemma clear_referencerBody:
  "(referencerBody camel arn k s r)\<lparr>References := m\<rparr> = r\<lparr>References := m\<rparr>"
  by (simp add: referencerBody_def clear_nameSwitch clear_suffixSwitch)

lemma clear_rangeStep:
  "(rangeStep camel arn k r)\<lparr>References := m\<rparr> = r\<lparr>References := m\<rparr>"
  by (simp add: rangeStep_def clear_referencerBody split: option.splits)

lemma suffixSwitch_refs:
  "References (suffixSwitch camel arn k r) k' =
     (if k' = k then
        (case References (suffixSwitch camel arn k (r\<lparr>References := Map.empty\<rparr>)) k of
           None \<Rightarrow> References r k | Some v \<Rightarrow> Some v)
      else References r k')"
  by (simp add: suffixSwitch_def)

lemma suffixSwitch_other:
  "k' \<noteq> k \<Longrightarrow> References (suffixSwitch camel arn k r) k' = References r k'"
  by (simp add: suffixSwitch_def)

lemma nameSwitch_other:
  "k' \<noteq> k \<Longrightarrow> References (nameSwitch k r) k' = References r k'"
  unfolding nameSwitch_def Let_def by (auto split: if_splits)

lemma nameSwitch_same:
  "References (nameSwitch k r) k =
        (case References (nameSwitch k (r\<lparr>References := Map.empty\<rparr>)) k of
           None \<Rightarrow> References r k | Some v \<Rightarrow> Some v)"
  unfolding nameSwitch_def Let_def by (auto split: if_splits)

lemma referencerBody_other:
  "k' \<noteq> k \<Longrightarrow> References (referencerBody camel arn k s r) k' = References r k'"
  by (simp add: referencerBody_def nameSwitch_other suffixSwitch_other)

lemma referencerBody_same:
  "References (referencerBody camel arn k s r) k =
     (case References (referencerBody camel arn k s (r\<lparr>References := Map.empty\<rparr>)) k of
        None \<Rightarrow> References r k | Some v \<Rightarrow> Some v)"
proof (cases "(Computed s \<and> \<not> Optional s) \<or> Sensitive s")
  case True
  then show ?thesis by (simp add: referencerBody_def)
next
  case False
  let ?e = "r\<lparr>References := Map.empty\<rparr>"
  have a: "References (nameSwitch k (suffixSwitch camel arn k r)) k =
      (case References (nameSwitch k ?e) k of
         None \<Rightarrow> References (suffixSwitch camel arn k r) k | Some v \<Rightarrow> Some v)"
    by (subst nameSwitch_same) (simp add: clear_suffixSwitch)
  have b: "References (nameSwitch k (suffixSwitch camel arn k ?e)) k =
      (case References (nameSwitch k ?e) k of
         None \<Rightarrow> References (suffixSwitch camel arn k ?e) k | Some v \<Rightarrow> Some v)"
    by (subst nameSwitch_same) (simp add: clear_suffixSwitch)
  have c: "References (suffixSwitch camel arn k r) k =
      (case References (suffixSwitch camel arn k ?e) k of
         None \<Rightarrow> References r k | Some v \<Rightarrow> Some v)"
    using suffixSwitch_refs [of camel arn k r k] by simp
  from False show ?thesis
    by (auto simp: referencerBody_def a b c split: option.splits)
qed

lemma rangeStep_other:
  "k' \<noteq> k \<Longrightarrow> References (rangeStep camel arn k r) k' = References r k'"
  by (simp add: rangeStep_def referencerBody_other split: option.splits)

lemma rangeStep_same:
  "References (rangeStep camel arn k r) k =
     (case wired camel arn r k of None \<Rightarrow> References r k | Some v \<Rightarrow> Some v)"
proof (cases "TerraformResource_Schema r k")
  case None
  then show ?thesis by (simp add: wired_def rangeStep_def)
next
  case (Some s)
  then show ?thesis
    using referencerBody_same [of camel arn k s r] by (simp add: wired_def rangeStep_def)
qed


lemma wired_rangeStep: "wired camel arn (rangeStep camel arn k' r) k = wired camel arn r k"
  by (simp add: wired_def clear_rangeStep)

lemma clear_fold:
  "(fold (rangeStep camel arn) ks r)\<lparr>References := m\<rparr> = r\<lparr>References := m\<rparr>"
  by (induction ks arbitrary: r) (simp_all add: clear_rangeStep)

lemma fold_refs:
  "References (fold (rangeStep camel arn) ks r) k =
     (if k \<in> set ks
      then (case wired camel arn r k of None \<Rightarrow> References r k | Some v \<Rightarrow> Some v)
      else References r k)"
proof (induction ks arbitrary: r)
  case Nil
  show ?case by simp
next
  case (Cons a ks)
  show ?case
  proof (cases "k = a")
    case True
    with Cons.IH [of "rangeStep camel arn a r"] show ?thesis
      by (simp add: wired_rangeStep rangeStep_same split: option.splits)
  next
    case False
    with Cons.IH [of "rangeStep camel arn a r"] show ?thesis
      by (simp add: wired_rangeStep rangeStep_other split: option.splits)
  qed
qed

lemma KnownReferencers_closed:
  "KnownReferencers camel arn ks r =
     Inr (r\<lparr>References := (\<lambda>k. if k \<in> set ks
             then (case wired camel arn r k of None \<Rightarrow> References r k | Some v \<Rightarrow> Some v)
             else References r k)\<rparr>)"
proof -
  let ?r' = "fold (rangeStep camel arn) ks r"
  have "?r' = ?r'\<lparr>References := References ?r'\<rparr>" by simp
  also have "\<dots> = r\<lparr>References := References ?r'\<rparr>" by (rule clear_fold)
  also have "References ?r' = (\<lambda>k. if k \<in> set ks
             then (case wired camel arn r k of None \<Rightarrow> References r k | Some v \<Rightarrow> Some v)
             else References r k)"
    by (rule ext) (rule fold_refs)
  finally show ?thesis by (simp add: KnownReferencers_def)
qed

lemma KnownReferencers_refs:
  "\<exists>r'. KnownReferencers camel arn ks r = Inr r' \<and> r'\<lparr>References := References r\<rparr> = r \<and>
     (\<forall>k. References r' k =
        (if k \<in> set ks
         then (case wired camel arn r k of None \<Rightarrow> References r k | Some v \<Rightarrow> Some v)
         else References r k))"
  by (simp add: KnownReferencers_def fold_refs clear_fold)

lemma wired_skip:
  "TerraformResource_Schema r k = Some s \<Longrightarrow> (Computed s \<and> \<not> Optional s) \<or> Sensitive s \<Longrightarrow>
   wired camel arn r k = None"
  by (auto simp: wired_def rangeStep_def referencerBody_def)

lemma ShortGroup_suffixSwitch: "ShortGroup (suffixSwitch camel arn k r) = ShortGroup r"
  by (simp add: suffixSwitch_def)

lemma wired_vpc_id:
  "TerraformResource_Schema r ''vpc_id'' = Some s \<Longrightarrow>
   \<not> ((Computed s \<and> \<not> Optional s) \<or> Sensitive s) \<Longrightarrow>
   wired camel arn r ''vpc_id'' =
     Some \<lparr> RefType = (if ShortGroup r = ''ec2'' then ''VPC''
               else ''github.com/crossplane-contrib/provider-jet-aws/apis/ec2/v1alpha2.VPC''),
            Extractor = [], RefFieldName = ''VpcIdRef'', SelectorFieldName = ''VpcIdSelector'' \<rparr>"
  by (simp add: wired_def rangeStep_def referencerBody_def nameSwitch_def Let_def
      ShortGroup_suffixSwitch)

lemma nameSwitch_not_exact:
  "k \<notin> {''vpc_id'', ''subnet_ids'', ''subnet_id'', ''security_group_id'', ''kms_key_id'',
    ''kms_key_arn'', ''kms_key''} \<Longrightarrow> nameSwitch k r = r"
  by (simp add: nameSwitch_def)

lemma wired_security_group_ids:
  assumes "TerraformResource_Schema r k = Some s"
    and "\<not> ((Computed s \<and> \<not> Optional s) \<or> Sensitive s)"
    and "HasSuffix k ''security_group_ids''"
  shows "wired camel arn r k =
     Some \<lparr> RefType =
              ''github.com/crossplane-contrib/provider-jet-aws/apis/ec2/v1alpha2.SecurityGroup'',
            Extractor = [],
            RefFieldName = TrimSuffix (camel k) ''s'' @ ''Refs'',
            SelectorFieldName = TrimSuffix (camel k) ''s'' @ ''Selector'' \<rparr>"
  using assms(1,2) sg_ids_not_role_arn [OF assms(3)]
  by (simp add: wired_def rangeStep_def referencerBody_def suffixSwitch_def assms(3)
      nameSwitch_not_exact [OF sg_ids_not_exact [OF assms(3)]])


text \<open>
  C7. For a field \<open>k\<close> of the schema that is computed and not optional, or sensitive,
  \<^verbatim>\<open>KnownReferencers\<close> returns a resource whose reference for \<open>k\<close> is the one it had: if there
  was none, there is none, whatever the name \<open>k\<close> is and in whatever order \<open>ks\<close> the loop runs.
\<close>

theorem KnownReferencers_skips_status_and_sensitive:
  assumes "TerraformResource_Schema r k = Some s"
    and "(Computed s \<and> \<not> Optional s) \<or> Sensitive s"
  shows "\<exists>r'. KnownReferencers camel pathARNExtractor ks r = Inr r'
           \<and> References r' k = References r k
           \<and> (References r k = None \<longrightarrow> References r' k = None)"
  using KnownReferencers_refs [of camel pathARNExtractor ks r] wired_skip [OF assms]
  by auto

theorem KnownReferencers_skips_status_and_sensitive_witness:
  "TerraformResource_Schema (exampleResource ''aws_subnet'' ''ec2'' [''vpc_id'' \<mapsto> statusVpcId])
      ''vpc_id'' = Some statusVpcId
   \<and> ((Computed statusVpcId \<and> \<not> Optional statusVpcId) \<or> Sensitive statusVpcId)
   \<and> References (exampleResource ''aws_subnet'' ''ec2'' [''vpc_id'' \<mapsto> statusVpcId]) ''vpc_id''
       = None
   \<and> (\<exists>r'. KnownReferencers SnakeToPascal ''common.ARNExtractor()'' [''vpc_id'']
               (exampleResource ''aws_subnet'' ''ec2'' [''vpc_id'' \<mapsto> statusVpcId]) = Inr r'
          \<and> References r' ''vpc_id'' = None)"
proof -
  have 1: "TerraformResource_Schema
      (exampleResource ''aws_subnet'' ''ec2'' [''vpc_id'' \<mapsto> statusVpcId]) ''vpc_id''
      = Some statusVpcId"
    by (simp add: exampleResource_def)
  have 2: "(Computed statusVpcId \<and> \<not> Optional statusVpcId) \<or> Sensitive statusVpcId"
    by (simp add: statusVpcId_def zeroSchema_def)
  have 3: "References (exampleResource ''aws_subnet'' ''ec2'' [''vpc_id'' \<mapsto> statusVpcId])
      ''vpc_id'' = None"
    by (simp add: exampleResource_def)
  from KnownReferencers_skips_status_and_sensitive
    [OF 1 2, of SnakeToPascal "''common.ARNExtractor()''" "[''vpc_id'']"] 1 2 3
  show ?thesis by auto
qed


text \<open>
  C6. For a field named \<^verbatim>\<open>vpc_id\<close> that is neither computed-only nor sensitive, and any order
  in which the loop visits the schema, \<^verbatim>\<open>KnownReferencers\<close> returns a resource whose reference
  for \<^verbatim>\<open>vpc_id\<close> has the type \<^verbatim>\<open>VPC\<close> when the group of the resource is \<^verbatim>\<open>ec2\<close> and the full type
  path of the VPC otherwise, and the field names \<^verbatim>\<open>VpcIdRef\<close> and \<^verbatim>\<open>VpcIdSelector\<close> in both cases.
\<close>

theorem KnownReferencers_vpc_id:
  assumes "rangeOrder ks (TerraformResource_Schema r)"
    and "TerraformResource_Schema r ''vpc_id'' = Some s"
    and "\<not> ((Computed s \<and> \<not> Optional s) \<or> Sensitive s)"
  shows "\<exists>r'. KnownReferencers camel pathARNExtractor ks r = Inr r'
           \<and> References r' ''vpc_id'' =
               Some \<lparr> RefType =
                        (if ShortGroup r = ''ec2'' then ''VPC''
                         else ''github.com/crossplane-contrib/provider-jet-aws/apis/ec2/v1alpha2.VPC''),
                      Extractor = [], RefFieldName = ''VpcIdRef'',
                      SelectorFieldName = ''VpcIdSelector'' \<rparr>"
proof -
  from assms(1,2) have "''vpc_id'' \<in> set ks" by (auto simp: rangeOrder_def)
  with KnownReferencers_refs [of camel pathARNExtractor ks r] wired_vpc_id [OF assms(2,3)]
  show ?thesis by auto
qed

theorem KnownReferencers_vpc_id_witness:
  "rangeOrder [''vpc_id''] (TerraformResource_Schema
      (exampleResource ''aws_subnet'' ''ec2'' [''vpc_id'' \<mapsto> settableVpcId]))
   \<and> rangeOrder [''vpc_id''] (TerraformResource_Schema
      (exampleResource ''aws_db_subnet_group'' ''rds'' [''vpc_id'' \<mapsto> settableVpcId]))
   \<and> \<not> ((Computed settableVpcId \<and> \<not> Optional settableVpcId) \<or> Sensitive settableVpcId)
   \<and> (\<exists>r'. KnownReferencers SnakeToPascal ''common.ARNExtractor()'' [''vpc_id'']
               (exampleResource ''aws_subnet'' ''ec2'' [''vpc_id'' \<mapsto> settableVpcId]) = Inr r'
          \<and> References r' ''vpc_id'' =
              Some \<lparr> RefType = ''VPC'', Extractor = [], RefFieldName = ''VpcIdRef'',
                     SelectorFieldName = ''VpcIdSelector'' \<rparr>)
   \<and> (\<exists>r'. KnownReferencers SnakeToPascal ''common.ARNExtractor()'' [''vpc_id'']
               (exampleResource ''aws_db_subnet_group'' ''rds'' [''vpc_id'' \<mapsto> settableVpcId])
             = Inr r'
          \<and> References r' ''vpc_id'' =
              Some \<lparr> RefType =
                       ''github.com/crossplane-contrib/provider-jet-aws/apis/ec2/v1alpha2.VPC'',
                     Extractor = [], RefFieldName = ''VpcIdRef'',
                     SelectorFieldName = ''VpcIdSelector'' \<rparr>)"
proof -
  have 1: "rangeOrder [''vpc_id''] (TerraformResource_Schema
      (exampleResource ''aws_subnet'' ''ec2'' [''vpc_id'' \<mapsto> settableVpcId]))"
    by (simp add: rangeOrder_def exampleResource_def)
  have 2: "rangeOrder [''vpc_id''] (TerraformResource_Schema
      (exampleResource ''aws_db_subnet_group'' ''rds'' [''vpc_id'' \<mapsto> settableVpcId]))"
    by (simp add: rangeOrder_def exampleResource_def)
  have 3: "\<not> ((Computed settableVpcId \<and> \<not> Optional settableVpcId) \<or> Sensitive settableVpcId)"
    by (simp add: settableVpcId_def zeroSchema_def)
  have 4: "TerraformResource_Schema
      (exampleResource ''aws_subnet'' ''ec2'' [''vpc_id'' \<mapsto> settableVpcId]) ''vpc_id''
      = Some settableVpcId"
    by (simp add: exampleResource_def)
  have 5: "TerraformResource_Schema
      (exampleResource ''aws_db_subnet_group'' ''rds'' [''vpc_id'' \<mapsto> settableVpcId]) ''vpc_id''
      = Some settableVpcId"
    by (simp add: exampleResource_def)
  have 6: "ShortGroup (exampleResource ''aws_subnet'' ''ec2'' [''vpc_id'' \<mapsto> settableVpcId])
      = ''ec2''"
    by (simp add: exampleResource_def)
  have 7: "ShortGroup
      (exampleResource ''aws_db_subnet_group'' ''rds'' [''vpc_id'' \<mapsto> settableVpcId]) \<noteq> ''ec2''"
    by (simp add: exampleResource_def)
  from KnownReferencers_vpc_id [OF 1 4 3, of SnakeToPascal "''common.ARNExtractor()''"]
    KnownReferencers_vpc_id [OF 2 5 3, of SnakeToPascal "''common.ARNExtractor()''"]
    1 2 3 6 7
  show ?thesis by simp
qed


text \<open>
  C3, as the claim states it, fails in its example: the field names stored for
  \<^verbatim>\<open>db_security_group_ids\<close> are not \<^verbatim>\<open>DbSecurityGroupRefs\<close> and \<^verbatim>\<open>DbSecurityGroupSelector\<close>. Only the
  final \<^verbatim>\<open>s\<close> of the transformed name is stripped, so the word \<^verbatim>\<open>Id\<close> stays. For a settable set
  of that name in a resource of the group \<^verbatim>\<open>rds\<close>, \<^verbatim>\<open>KnownReferencers\<close> stores
  \<^verbatim>\<open>DBSecurityGroupIdRefs\<close> and \<^verbatim>\<open>DBSecurityGroupIdSelector\<close> with a transform that writes \<^verbatim>\<open>db\<close>
  as an acronym, and \<^verbatim>\<open>DbSecurityGroupIdRefs\<close> and \<^verbatim>\<open>DbSecurityGroupIdSelector\<close> with the
  transform of the spec.
\<close>

theorem KnownReferencers_security_group_ids_counterexample:
  "TerraformResource_Schema
      (exampleResource ''aws_db_instance'' ''rds'' [''db_security_group_ids'' \<mapsto> securityGroupIds])
      ''db_security_group_ids'' = Some securityGroupIds
   \<and> \<not> Computed securityGroupIds \<and> \<not> Sensitive securityGroupIds
   \<and> HasSuffix ''db_security_group_ids'' ''security_group_ids''
   \<and> KnownReferencers acronymPascal ''common.ARNExtractor()'' [''db_security_group_ids'']
       (exampleResource ''aws_db_instance'' ''rds'' [''db_security_group_ids'' \<mapsto> securityGroupIds])
     = Inr ((exampleResource ''aws_db_instance'' ''rds''
               [''db_security_group_ids'' \<mapsto> securityGroupIds])
            \<lparr>References := [''db_security_group_ids'' \<mapsto>
               \<lparr> RefType =
                 ''github.com/crossplane-contrib/provider-jet-aws/apis/ec2/v1alpha2.SecurityGroup'',
                 Extractor = [],
                 RefFieldName = ''DBSecurityGroupIdRefs'',
                 SelectorFieldName = ''DBSecurityGroupIdSelector'' \<rparr>]\<rparr>)
   \<and> KnownReferencers SnakeToPascal ''common.ARNExtractor()'' [''db_security_group_ids'']
       (exampleResource ''aws_db_instance'' ''rds'' [''db_security_group_ids'' \<mapsto> securityGroupIds])
     = Inr ((exampleResource ''aws_db_instance'' ''rds''
               [''db_security_group_ids'' \<mapsto> securityGroupIds])
            \<lparr>References := [''db_security_group_ids'' \<mapsto>
               \<lparr> RefType =
                 ''github.com/crossplane-contrib/provider-jet-aws/apis/ec2/v1alpha2.SecurityGroup'',
                 Extractor = [],
                 RefFieldName = ''DbSecurityGroupIdRefs'',
                 SelectorFieldName = ''DbSecurityGroupIdSelector'' \<rparr>]\<rparr>)
   \<and> ''DBSecurityGroupIdRefs'' \<noteq> ''DbSecurityGroupRefs''
   \<and> ''DBSecurityGroupIdSelector'' \<noteq> ''DbSecurityGroupSelector''
   \<and> ''DbSecurityGroupIdRefs'' \<noteq> ''DbSecurityGroupRefs''
   \<and> ''DbSecurityGroupIdSelector'' \<noteq> ''DbSecurityGroupSelector''"
proof -
  have a: "HasSuffix ''db_security_group_ids'' ''security_group_ids''"
    by (simp add: HasSuffix_def)
  have b: "\<not> HasSuffix ''db_security_group_ids'' ''role_arn''"
    by (simp add: HasSuffix_def)
  have c: "TrimSuffix (SnakeToPascal ''db_security_group_ids'') ''s'' = ''DbSecurityGroupId''"
    by (simp add: SnakeToPascal_db TrimSuffix_def HasSuffix_def)
  have c': "TrimSuffix (acronymPascal ''db_security_group_ids'') ''s'' = ''DBSecurityGroupId''"
    by (simp add: acronymPascal_db TrimSuffix_def HasSuffix_def)
  have d: "nameSwitch ''db_security_group_ids'' r = r" for r :: "unit Resource"
    by (simp add: nameSwitch_def)
  show ?thesis
    by (simp add: a b c c' d KnownReferencers_def rangeStep_def referencerBody_def suffixSwitch_def
        exampleResource_def securityGroupIds_def zeroSchema_def)
qed

text \<open>
  C3, amended. For a field \<open>k\<close> whose name ends with \<^verbatim>\<open>security_group_ids\<close> and that is neither
  computed-only nor sensitive, and any order in which the loop visits the schema,
  \<^verbatim>\<open>KnownReferencers\<close> returns a resource whose reference for \<open>k\<close> has the security group type and
  the field names made of the naming transform of \<open>k\<close>, a final \<^verbatim>\<open>s\<close> stripped, followed by
  \<^verbatim>\<open>Refs\<close> and \<^verbatim>\<open>Selector\<close>, and this for every naming transform. In particular, whenever the
  transform of the name ends in \<^verbatim>\<open>Ids\<close> (as \<^verbatim>\<open>DBSecurityGroupIds\<close> and \<^verbatim>\<open>DbSecurityGroupIds\<close> do,
  which the two sample transforms give for \<^verbatim>\<open>db_security_group_ids\<close>), the field names are the
  transform with \<^verbatim>\<open>Ids\<close> replaced by \<^verbatim>\<open>IdRefs\<close> and by \<^verbatim>\<open>IdSelector\<close>, and they are not
  \<^verbatim>\<open>DbSecurityGroupRefs\<close> and \<^verbatim>\<open>DbSecurityGroupSelector\<close>.
\<close>

theorem KnownReferencers_security_group_ids:
  assumes "rangeOrder ks (TerraformResource_Schema r)"
    and "TerraformResource_Schema r k = Some s"
    and "\<not> ((Computed s \<and> \<not> Optional s) \<or> Sensitive s)"
    and "HasSuffix k ''security_group_ids''"
  shows "\<exists>r'. KnownReferencers camel pathARNExtractor ks r = Inr r'
           \<and> References r' k =
               Some \<lparr> RefType =
                 ''github.com/crossplane-contrib/provider-jet-aws/apis/ec2/v1alpha2.SecurityGroup'',
                 Extractor = [],
                 RefFieldName = TrimSuffix (camel k) ''s'' @ ''Refs'',
                 SelectorFieldName = TrimSuffix (camel k) ''s'' @ ''Selector'' \<rparr>
           \<and> (\<forall>p. camel k = p @ ''Ids'' \<longrightarrow>
                 map_option RefFieldName (References r' k) = Some (p @ ''IdRefs'')
                 \<and> map_option SelectorFieldName (References r' k) = Some (p @ ''IdSelector'')
                 \<and> map_option RefFieldName (References r' k) \<noteq> Some ''DbSecurityGroupRefs''
                 \<and> map_option SelectorFieldName (References r' k)
                     \<noteq> Some ''DbSecurityGroupSelector'')"
proof -
  from assms(1,2) have "k \<in> set ks" by (auto simp: rangeOrder_def)
  then show ?thesis
    using KnownReferencers_refs [of camel pathARNExtractor ks r]
      wired_security_group_ids [OF assms(2,3,4), of camel pathARNExtractor]
    by (auto simp: TrimSuffix_Ids IdRefs_not_claimed IdSelector_not_claimed)
qed

theorem KnownReferencers_security_group_ids_witness:
  "rangeOrder [''db_security_group_ids''] (TerraformResource_Schema
      (exampleResource ''aws_db_instance'' ''rds'' [''db_security_group_ids'' \<mapsto> securityGroupIds]))
   \<and> TerraformResource_Schema
      (exampleResource ''aws_db_instance'' ''rds'' [''db_security_group_ids'' \<mapsto> securityGroupIds])
      ''db_security_group_ids'' = Some securityGroupIds
   \<and> \<not> ((Computed securityGroupIds \<and> \<not> Optional securityGroupIds) \<or> Sensitive securityGroupIds)
   \<and> HasSuffix ''db_security_group_ids'' ''security_group_ids''
   \<and> SnakeToPascal ''db_security_group_ids'' = ''DbSecurityGroup'' @ ''Ids''
   \<and> acronymPascal ''db_security_group_ids'' = ''DBSecurityGroup'' @ ''Ids''
   \<and> (\<exists>r'. KnownReferencers SnakeToPascal ''common.ARNExtractor()'' [''db_security_group_ids'']
         (exampleResource ''aws_db_instance'' ''rds''
            [''db_security_group_ids'' \<mapsto> securityGroupIds]) = Inr r'
        \<and> map_option RefFieldName (References r' ''db_security_group_ids'')
            = Some ''DbSecurityGroupIdRefs''
        \<and> map_option SelectorFieldName (References r' ''db_security_group_ids'')
            = Some ''DbSecurityGroupIdSelector'')
   \<and> (\<exists>r'. KnownReferencers acronymPascal ''common.ARNExtractor()'' [''db_security_group_ids'']
         (exampleResource ''aws_db_instance'' ''rds''
            [''db_security_group_ids'' \<mapsto> securityGroupIds]) = Inr r'
        \<and> map_option RefFieldName (References r' ''db_security_group_ids'')
            = Some ''DBSecurityGroupIdRefs''
        \<and> map_option SelectorFieldName (References r' ''db_security_group_ids'')
            = Some ''DBSecurityGroupIdSelector'')"
proof -
  have 1: "rangeOrder [''db_security_group_ids''] (TerraformResource_Schema
      (exampleResource ''aws_db_instance'' ''rds'' [''db_security_group_ids'' \<mapsto> securityGroupIds]))"
    by (simp add: rangeOrder_def exampleResource_def)
  have 2: "TerraformResource_Schema
      (exampleResource ''aws_db_instance'' ''rds'' [''db_security_group_ids'' \<mapsto> securityGroupIds])
      ''db_security_group_ids'' = Some securityGroupIds"
    by (simp add: exampleResource_def)
  have 3: "\<not> ((Computed securityGroupIds \<and> \<not> Optional securityGroupIds)
      \<or> Sensitive securityGroupIds)"
    by (simp add: securityGroupIds_def zeroSchema_def)
  have 4: "HasSuffix ''db_security_group_ids'' ''security_group_ids''"
    by (simp add: HasSuffix_def)
  note 5 = SnakeToPascal_db
  note 6 = acronymPascal_db
  from KnownReferencers_security_group_ids
      [OF 1 2 3 4, of SnakeToPascal "''common.ARNExtractor()''"] 5
  have a: "\<exists>r'. KnownReferencers SnakeToPascal ''common.ARNExtractor()'' [''db_security_group_ids'']
         (exampleResource ''aws_db_instance'' ''rds''
            [''db_security_group_ids'' \<mapsto> securityGroupIds]) = Inr r'
        \<and> map_option RefFieldName (References r' ''db_security_group_ids'')
            = Some ''DbSecurityGroupIdRefs''
        \<and> map_option SelectorFieldName (References r' ''db_security_group_ids'')
            = Some ''DbSecurityGroupIdSelector''"
    by fastforce
  from KnownReferencers_security_group_ids
      [OF 1 2 3 4, of acronymPascal "''common.ARNExtractor()''"] 6
  have b: "\<exists>r'. KnownReferencers acronymPascal ''common.ARNExtractor()'' [''db_security_group_ids'']
         (exampleResource ''aws_db_instance'' ''rds''
            [''db_security_group_ids'' \<mapsto> securityGroupIds]) = Inr r'
        \<and> map_option RefFieldName (References r' ''db_security_group_ids'')
            = Some ''DBSecurityGroupIdRefs''
        \<and> map_option SelectorFieldName (References r' ''db_security_group_ids'')
            = Some ''DBSecurityGroupIdSelector''"
    by fastforce
  from 1 2 3 4 5 6 a b show ?thesis by blast
qed

section \<open>Idempotence\<close>















section \<open>Panics and the default chain\<close>

lemma defaultResourceFn_unfold:
  "defaultResourceFn camel newComment idp arn ks r0 =
     andThen (GroupKindOverrides camel r0) (\<lambda>r1.
     andThen (KindOverrides r1) (\<lambda>r2.
     andThen (RegionAddition newComment r2) (\<lambda>r3.
     andThen (TagsAllRemoval r3) (\<lambda>r4.
     andThen (IdentifierAssignedByAWS idp r4) (\<lambda>r5.
     andThen (NamePrefixRemoval r5) (\<lambda>r6.
     KnownReferencers camel arn ks r6))))))"
  by (simp add: defaultResourceFn_def defaultResourceOptions_def andThen_def
      split: sum.splits)

lemma KindOverrides_total: "\<exists>r'. KindOverrides r = Inr r'"
  by (simp add: KindOverrides_def split: option.splits)

lemma TagsAllRemoval_total: "\<exists>r'. TagsAllRemoval r = Inr r'"
  by (simp add: TagsAllRemoval_def split: option.splits)

lemma NamePrefixRemoval_total: "\<exists>r'. NamePrefixRemoval r = Inr r'"
  by (simp add: NamePrefixRemoval_def)

lemma RegionAddition_fails_iff:
  "(\<exists>p. RegionAddition newComment r = Inl p) =
     (ShortGroup r \<noteq> ''iam'' \<and> (\<exists>err. newComment regionComment ''-'' = Inl err))"
  by (auto simp: RegionAddition_def split: sum.splits)

lemma defaultResourceFn_cases:
  obtains (panic) err where "newComment regionComment ''-'' = Inl err"
      "defaultResourceFn camel newComment idp arn ks r0
         = Inl (PanicError (Wrap err ''cannot build comment for region''))"
  | (ok) r6 r where "NamePrefixRemoval (r6\<lparr>ExternalName := idp\<rparr>) = Inr r"
      "\<exists>r'. defaultResourceFn camel newComment idp arn ks r0 = Inr r'
          \<and> ExternalName r' = ExternalName r"
proof -
  obtain r1 where 1: "GroupKindOverrides camel r0 = Inr r1"
    using GroupKindOverrides_total by blast
  obtain r2 where 2: "KindOverrides r1 = Inr r2"
    using KindOverrides_total by blast
  show ?thesis
  proof (cases "RegionAddition newComment r2")
    case (Inl p)
    then obtain err where e: "ShortGroup r2 \<noteq> ''iam''" "newComment regionComment ''-'' = Inl err"
      using RegionAddition_fails_iff [of newComment r2] by blast
    with Inl have "p = PanicError (Wrap err ''cannot build comment for region'')"
      by (simp add: RegionAddition_panic)
    with Inl 1 2 e show ?thesis
      by (intro panic [of err]) (simp_all add: defaultResourceFn_unfold andThen_def)
  next
    case (Inr r3)
    obtain r4 where 4: "TagsAllRemoval r3 = Inr r4"
      using TagsAllRemoval_total by blast
    obtain r6 where 6: "NamePrefixRemoval (r4\<lparr>ExternalName := idp\<rparr>) = Inr r6"
      using NamePrefixRemoval_total by blast
    have "defaultResourceFn camel newComment idp arn ks r0 = KnownReferencers camel arn ks r6"
      by (simp add: defaultResourceFn_unfold andThen_def 1 2 Inr 4 6
          IdentifierAssignedByAWS_def)
    then show ?thesis
      by (intro ok [OF 6]) (simp add: KnownReferencers_closed)
  qed
qed

lemma NamePrefixRemoval_ExternalName:
  "NamePrefixRemoval (r\<lparr>ExternalName := idp\<rparr>) = Inr r' \<Longrightarrow>
   ExternalName r' =
     (if ''name_prefix'' \<in> set (OmittedFields idp) then idp
      else idp\<lparr>OmittedFields := OmittedFields idp @ [''name_prefix'']\<rparr>)"
  by (auto simp: NamePrefixRemoval_def rangeFinds_set split: if_splits)


subsection \<open>Descriptors and resources agree\<close>






















text \<open>
  C10. In the options of the default chain, \<^verbatim>\<open>IdentifierAssignedByAWS\<close> (index 4) comes right
  before \<^verbatim>\<open>NamePrefixRemoval\<close> (index 5). Whatever external name the resource had, the resource
  that the chain returns has the external name \<open>identifierFromProvider\<close>, with \<^verbatim>\<open>name_prefix\<close>
  appended to its omitted fields unless it is among them already; so \<^verbatim>\<open>name_prefix\<close> occurs
  exactly once among the omitted fields, provided it occurs at most once in those of
  \<open>identifierFromProvider\<close>. The chain does return a resource whenever the comment builder
  accepts the region text.
\<close>

theorem defaultResourceFn_name_prefix_once:
  "defaultResourceOptions camel newComment identifierFromProvider pathARNExtractor ks ! 4
     = IdentifierAssignedByAWS identifierFromProvider
   \<and> defaultResourceOptions camel newComment identifierFromProvider pathARNExtractor ks ! 5
     = NamePrefixRemoval
   \<and> (\<forall>r. defaultResourceFn camel newComment identifierFromProvider pathARNExtractor ks r0 = Inr r
        \<longrightarrow> ExternalName r =
              (if ''name_prefix'' \<in> set (OmittedFields identifierFromProvider)
               then identifierFromProvider
               else identifierFromProvider
                 \<lparr>OmittedFields := OmittedFields identifierFromProvider @ [''name_prefix'']\<rparr>)
            \<and> (count_list (OmittedFields identifierFromProvider) ''name_prefix'' \<le> 1 \<longrightarrow>
                 count_list (OmittedFields (ExternalName r)) ''name_prefix'' = 1))
   \<and> (newComment regionComment ''-'' = Inr d \<longrightarrow>
        (\<exists>r. defaultResourceFn camel newComment identifierFromProvider pathARNExtractor ks r0
               = Inr r))"
proof (intro conjI allI impI)
  show "defaultResourceOptions camel newComment identifierFromProvider pathARNExtractor ks ! 4
     = IdentifierAssignedByAWS identifierFromProvider"
    by (simp add: defaultResourceOptions_def)
  show "defaultResourceOptions camel newComment identifierFromProvider pathARNExtractor ks ! 5
     = NamePrefixRemoval"
    by (simp add: defaultResourceOptions_def)
next
  fix r
  assume r: "defaultResourceFn camel newComment identifierFromProvider pathARNExtractor ks r0
      = Inr r"
  show e: "ExternalName r =
      (if ''name_prefix'' \<in> set (OmittedFields identifierFromProvider)
       then identifierFromProvider
       else identifierFromProvider
         \<lparr>OmittedFields := OmittedFields identifierFromProvider @ [''name_prefix'']\<rparr>)"
  proof (cases rule: defaultResourceFn_cases
      [of newComment camel identifierFromProvider pathARNExtractor ks r0])
    case (panic err)
    with r show ?thesis by simp
  next
    case (ok r6 r')
    with r have "ExternalName r = ExternalName r'" by auto
    with NamePrefixRemoval_ExternalName [OF ok(1)] show ?thesis by simp
  qed
  assume c: "count_list (OmittedFields identifierFromProvider) ''name_prefix'' \<le> 1"
  show "count_list (OmittedFields (ExternalName r)) ''name_prefix'' = 1"
  proof (cases "''name_prefix'' \<in> set (OmittedFields identifierFromProvider)")
    case True
    then have "count_list (OmittedFields identifierFromProvider) ''name_prefix'' \<noteq> 0"
      by (simp add: count_list_0_iff)
    with c True e show ?thesis by simp
  next
    case False
    with e show ?thesis by simp
  qed
next
  assume d: "newComment regionComment ''-'' = Inr d"
  show "\<exists>r. defaultResourceFn camel newComment identifierFromProvider pathARNExtractor ks r0
      = Inr r"
  proof (cases rule: defaultResourceFn_cases
      [of newComment camel identifierFromProvider pathARNExtractor ks r0])
    case (panic err)
    with d show ?thesis by simp
  next
    case (ok r6 r')
    then show ?thesis by blast
  qed
qed

theorem defaultResourceFn_name_prefix_once_witness:
  "OmittedFields (ExternalName namedSubnet) = [''name'', ''name_prefix'']
   \<and> count_list (OmittedFields exampleExternalName) ''name_prefix'' \<le> 1
   \<and> acceptingComment regionComment ''-'' = Inr (regionComment @ ''+terrajet:crd:field:TFTag=-'')
   \<and> (\<exists>r. defaultResourceFn SnakeToPascal acceptingComment exampleExternalName
             ''common.ARNExtractor()'' [''vpc_id'', ''tags_all'', ''region''] namedSubnet = Inr r
          \<and> OmittedFields (ExternalName r) = [''name_prefix'']
          \<and> count_list (OmittedFields (ExternalName r)) ''name_prefix'' = 1)"
proof -
  have 1: "OmittedFields (ExternalName namedSubnet) = [''name'', ''name_prefix'']"
    by (simp add: namedSubnet_def nameAsIdentifier_def)
  have 2: "count_list (OmittedFields exampleExternalName) ''name_prefix'' \<le> 1"
    by (simp add: exampleExternalName_def)
  have 3: "acceptingComment regionComment ''-''
      = Inr (regionComment @ ''+terrajet:crd:field:TFTag=-'')"
    by (simp add: acceptingComment_def)
  have 4: "''name_prefix'' \<notin> set (OmittedFields exampleExternalName)"
    by (simp add: exampleExternalName_def)
  have 5: "OmittedFields (exampleExternalName
      \<lparr>OmittedFields := OmittedFields exampleExternalName @ [''name_prefix'']\<rparr>) = [''name_prefix'']"
    by (simp add: exampleExternalName_def)
  from defaultResourceFn_name_prefix_once
    [of SnakeToPascal acceptingComment exampleExternalName "''common.ARNExtractor()''"
      "[''vpc_id'', ''tags_all'', ''region'']" namedSubnet
      "regionComment @ ''+terrajet:crd:field:TFTag=-''"] 1 2 3 4 5
  show ?thesis by auto
qed


end
